theory Spec2Isabelle
  imports Complex_Main
begin

section \<open>Gridlock: the geometry mapper and the drag state machine\<close>

text \<open>
  A shallow embedding of \<^verbatim>\<open>src/gridlock.py\<close>: the class \<^verbatim>\<open>Rect\<close>, the function
  \<^verbatim>\<open>get_gtk_frame_offset\<close> and the methods of the class \<^verbatim>\<open>GridLock\<close> that read or
  change the drag session and the target window.

  Python integers are unbounded: \<open>int\<close>. Python floats (the cell size, which is the
  quotient \<^verbatim>\<open>allocation.width / self.cols\<close>, and the pointer position of a motion
  event) are modelled by the exact rationals they stand for; the rounding of double
  arithmetic is not modelled. An exception is a value of \<open>error\<close>; a method that
  mutates the object returns the object as it is when the method returns or raises.
\<close>

subsection \<open>Python values\<close>

datatype error = TypeError | AttributeError | ZeroDivisionError | RuntimeError

text \<open>\<^verbatim>\<open>int(q)\<close> on a float: truncation toward zero.\<close>

definition py_int :: "rat \<Rightarrow> int" where
  "py_int q = (if q < 0 then - \<lfloor>- q\<rfloor> else \<lfloor>q\<rfloor>)"

text \<open>\<^verbatim>\<open>a / b\<close>: true division, raising on a zero divisor.\<close>

definition true_div :: "rat \<Rightarrow> rat \<Rightarrow> error + rat" where
  "true_div a b = (if b = 0 then Inl ZeroDivisionError else Inr (a / b))"

text \<open>
  \<^verbatim>\<open>min(a, b)\<close> and \<^verbatim>\<open>max(a, b)\<close> on attributes that are an integer or
  \<^verbatim>\<open>None\<close>: comparing with \<^verbatim>\<open>None\<close> raises \<^verbatim>\<open>TypeError\<close>.
\<close>

definition py_min :: "int option \<Rightarrow> int option \<Rightarrow> error + int" where
  "py_min a b = (case (a, b) of (Some m, Some n) \<Rightarrow> Inr (min m n) | _ \<Rightarrow> Inl TypeError)"

definition py_max :: "int option \<Rightarrow> int option \<Rightarrow> error + int" where
  "py_max a b = (case (a, b) of (Some m, Some n) \<Rightarrow> Inr (max m n) | _ \<Rightarrow> Inl TypeError)"

text \<open>Sequencing of computations that may raise.\<close>

definition bind :: "error + 'a \<Rightarrow> ('a \<Rightarrow> error + 'b) \<Rightarrow> error + 'b" where
  "bind m f = (case m of Inl e \<Rightarrow> Inl e | Inr v \<Rightarrow> f v)"

text \<open>\<^verbatim>\<open>tuple(sum(x) for x in zip(a, b))\<close>: \<^verbatim>\<open>zip\<close> stops at the shorter argument.\<close>

definition zip_sum :: "int list \<Rightarrow> int list \<Rightarrow> int list" where
  "zip_sum a b = map (\<lambda>(m, n). 0 + m + n) (zip a b)"

subsection \<open>class Rect\<close>

record Rect =
  x1 :: "int option"
  y1 :: "int option"
  x2 :: "int option"
  y2 :: "int option"

definition Rect_init :: Rect where
  "Rect_init = \<lparr>x1 = None, y1 = None, x2 = None, y2 = None\<rparr>"

definition Rect_bool :: "Rect \<Rightarrow> bool" where
  "Rect_bool self = (x1 self \<noteq> None \<and> y1 self \<noteq> None \<and> x2 self \<noteq> None \<and> y2 self \<noteq> None)"

definition Rect_copy :: "Rect \<Rightarrow> Rect" where
  "Rect_copy self = \<lparr>x1 = x1 self, y1 = y1 self, x2 = x2 self, y2 = y2 self\<rparr>"

definition Rect_eq :: "Rect \<Rightarrow> Rect \<Rightarrow> bool" where
  "Rect_eq self other =
     ((x1 self, y1 self, x2 self, y2 self) = (x1 other, y1 other, x2 other, y2 other))"

text \<open>
  \<^verbatim>\<open>to_cairo\<close>: the four \<^verbatim>\<open>min\<close>/\<^verbatim>\<open>max\<close> calls in the order of the source, then
  \<^verbatim>\<open>map(int, ...)\<close> over the four products. The result is the iterator's four
  elements.
\<close>

definition to_cairo :: "Rect \<Rightarrow> rat \<Rightarrow> rat \<Rightarrow> error + (int \<times> int \<times> int \<times> int)" where
  "to_cairo self scale_x scale_y =
     bind (py_min (x1 self) (x2 self)) (\<lambda>xa.
     bind (py_min (y1 self) (y2 self)) (\<lambda>ya.
     bind (py_max (x1 self) (x2 self)) (\<lambda>xb.
     bind (py_max (y1 self) (y2 self)) (\<lambda>yb.
       Inr (py_int (of_int xa * scale_x),
            py_int (of_int ya * scale_y),
            py_int (of_int (1 + xb - xa) * scale_x),
            py_int (of_int (1 + yb - ya) * scale_y))))))"

subsection \<open>The target window (Wnck) and the command line\<close>

datatype gravity = CURRENT | NORTHWEST | NORTH | NORTHEAST | WEST | CENTER | EAST
  | SOUTHWEST | SOUTH | SOUTHEAST | STATIC

text \<open>
  The calls that change the target window, in the order they are made. The mask of
  \<^verbatim>\<open>set_geometry\<close> is always X, Y, WIDTH and HEIGHT and is left out.
\<close>

datatype call = SetGeometry gravity int int int int
  | Unmaximize | MaximizeVertically | MaximizeHorizontally | Maximize

text \<open>
  The target window as the program sees it through Wnck: the two maximization flags
  and the log of the calls made on it. A window is maximized when it is maximized in
  both directions; a call takes effect on the flags at once.
\<close>

record wnck_target =
  maximized_vert :: bool
  maximized_horiz :: bool
  calls :: "call list"

definition is_maximized_vertically :: "wnck_target \<Rightarrow> bool" where
  "is_maximized_vertically t = maximized_vert t"

definition is_maximized_horizontally :: "wnck_target \<Rightarrow> bool" where
  "is_maximized_horizontally t = maximized_horiz t"

definition is_maximized :: "wnck_target \<Rightarrow> bool" where
  "is_maximized t = (maximized_horiz t \<and> maximized_vert t)"

definition unmaximize :: "wnck_target \<Rightarrow> wnck_target" where
  "unmaximize t =
     t\<lparr>maximized_vert := False, maximized_horiz := False, calls := calls t @ [Unmaximize]\<rparr>"

definition maximize_vertically :: "wnck_target \<Rightarrow> wnck_target" where
  "maximize_vertically t = t\<lparr>maximized_vert := True, calls := calls t @ [MaximizeVertically]\<rparr>"

definition maximize_horizontally :: "wnck_target \<Rightarrow> wnck_target" where
  "maximize_horizontally t =
     t\<lparr>maximized_horiz := True, calls := calls t @ [MaximizeHorizontally]\<rparr>"

definition maximize :: "wnck_target \<Rightarrow> wnck_target" where
  "maximize t =
     t\<lparr>maximized_vert := True, maximized_horiz := True, calls := calls t @ [Maximize]\<rparr>"

definition set_geometry ::
  "gravity \<Rightarrow> int \<Rightarrow> int \<Rightarrow> int \<Rightarrow> int \<Rightarrow> wnck_target \<Rightarrow> wnck_target" where
  "set_geometry g x y width height t = t\<lparr>calls := calls t @ [SetGeometry g x y width height]\<rparr>"

text \<open>
  The parsed command line, as far as the methods below read it. \<open>offset\<close> is the
  tuple \<^verbatim>\<open>args.offset\<close>, of any length.
\<close>

record args =
  grid :: "int \<times> int"
  offset :: "int list"
  gravity :: gravity
  live_preview :: bool
  hide_cursor :: bool

text \<open>
  The zero-padding of a parsed offset:
  \<^verbatim>\<open>args.offset += (0,) * (4 - len(args.offset))\<close>.
\<close>

definition pad_offset :: "int list \<Rightarrow> int list" where
  "pad_offset xs = xs @ replicate (4 - length xs) 0"

text \<open>
  \<^verbatim>\<open>get_gtk_frame_offset\<close>: the argument is the value of the property
  \<^verbatim>\<open>_GTK_FRAME_EXTENTS\<close>, (left, right, top, bottom), when the window has it.
\<close>

definition get_gtk_frame_offset :: "(int \<times> int \<times> int \<times> int) option \<Rightarrow> int list" where
  "get_gtk_frame_offset prop =
     (case prop of
        Some (left', right', top', bottom') \<Rightarrow>
          [- left', - top', left' + right', top' + bottom']
      | None \<Rightarrow> [0, 0, 0, 0])"

subsection \<open>class GridLock\<close>

text \<open>
  The attributes of the object, then what the methods read from the toolkit: the
  allocation of the grid widget (width, height), the geometry of the grid window, the
  frame extents of the target, the visibility of the cursor widget and whether
  \<^verbatim>\<open>Gtk.main_quit\<close> has been called. \<open>wnck_window\<close> is False while the attribute is
  \<^verbatim>\<open>None\<close>; \<open>last_cursor_rect\<close> is \<open>None\<close> while the attribute does not exist.
\<close>

record GridLock =
  target :: wnck_target
  cols :: int
  rows :: int
  drag :: bool
  wnck_window :: bool
  cursor_rect :: Rect
  last_cursor_rect :: "Rect option"
  target_orig_geometry :: "int \<times> int \<times> int \<times> int"
  target_orig_maximized_vert :: bool
  target_orig_maximized_horiz :: bool
  target_orig_maximized :: bool
  allocation :: "int \<times> int"
  grid_geometry :: "int \<times> int \<times> int \<times> int"
  frame_extents :: "(int \<times> int \<times> int \<times> int) option"
  cursor_visible :: bool
  main_quit :: bool

text \<open>
  \<^verbatim>\<open>__init__\<close>: \<open>geom\<close> is what \<^verbatim>\<open>target.get_geometry()\<close> returns, \<open>composited\<close>
  whether the screen has an RGBA visual and a compositor.
\<close>

definition GridLock_init ::
  "args \<Rightarrow> wnck_target \<Rightarrow> int \<times> int \<times> int \<times> int \<Rightarrow> int \<times> int \<Rightarrow> int \<times> int \<times> int \<times> int
     \<Rightarrow> (int \<times> int \<times> int \<times> int) option \<Rightarrow> bool \<Rightarrow> error + GridLock" where
  "GridLock_init a tgt geom alloc ggeom fext composited =
     (if composited then
        Inr \<lparr>target = tgt, cols = fst (grid a), rows = snd (grid a), drag = False,
             wnck_window = False, cursor_rect = Rect_init, last_cursor_rect = None,
             target_orig_geometry = geom,
             target_orig_maximized_vert = is_maximized_vertically tgt,
             target_orig_maximized_horiz = is_maximized_horizontally tgt,
             target_orig_maximized = is_maximized tgt,
             allocation = alloc, grid_geometry = ggeom, frame_extents = fext,
             cursor_visible = True, main_quit = False\<rparr>
      else Inl RuntimeError)"

definition set_raw_target_geometry ::
  "args \<Rightarrow> int \<Rightarrow> int \<Rightarrow> int \<Rightarrow> int \<Rightarrow> GridLock \<Rightarrow> GridLock" where
  "set_raw_target_geometry a x y width height self =
     self\<lparr>target := set_geometry (gravity a) x y width height (target self)\<rparr>"

text \<open>
  \<^verbatim>\<open>self.set_raw_target_geometry(*geometry)\<close>: the call needs exactly four
  arguments.
\<close>

definition set_raw_target_geometry_star ::
  "args \<Rightarrow> int list \<Rightarrow> GridLock \<Rightarrow> error option \<times> GridLock" where
  "set_raw_target_geometry_star a geometry self =
     (case geometry of
        [x, y, width, height] \<Rightarrow> (None, set_raw_target_geometry a x y width height self)
      | _ \<Rightarrow> (Some TypeError, self))"

definition cell_size :: "GridLock \<Rightarrow> error + (rat \<times> rat)" where
  "cell_size self =
     bind (true_div (of_int (fst (allocation self))) (of_int (cols self))) (\<lambda>cell_width.
     bind (true_div (of_int (snd (allocation self))) (of_int (rows self))) (\<lambda>cell_height.
       Inr (cell_width, cell_height)))"

definition set_target_geometry_from_cursor :: "args \<Rightarrow> GridLock \<Rightarrow> error option \<times> GridLock" where
  "set_target_geometry_from_cursor a self0 =
     (let self = (if is_maximized (target self0)
                  then self0\<lparr>target := unmaximize (target self0)\<rparr> else self0)
      in (case cell_size self of
            Inl e \<Rightarrow> (Some e, self)
          | Inr (cell_width, cell_height) \<Rightarrow>
             (case to_cairo (cursor_rect self) cell_width cell_height of
                Inl e \<Rightarrow> (Some e, self)
              | Inr (x, y, width, height) \<Rightarrow>
                 (if \<not> wnck_window self then (Some AttributeError, self)
                  else
                    (case grid_geometry self of
                       (grid_x, grid_y, grid_width, grid_height) \<Rightarrow>
                         (let geometry = [x + grid_x, y + grid_y, width, height];
                              geometry = zip_sum geometry (offset a);
                              frame_offset = get_gtk_frame_offset (frame_extents self);
                              geometry = zip_sum geometry frame_offset
                          in set_raw_target_geometry_star a geometry self))))))"

text \<open>
  \<^verbatim>\<open>on_draw_window\<close>: \<open>found\<close> says whether \<^verbatim>\<open>Wnck.Window.get(xid)\<close> finds the grid
  window this time.
\<close>

definition on_draw_window :: "bool \<Rightarrow> GridLock \<Rightarrow> GridLock" where
  "on_draw_window found self =
     (if \<not> wnck_window self then self\<lparr>wnck_window := found\<rparr> else self)"

text \<open>\<^verbatim>\<open>on_draw_cursor\<close>: the rectangle that is filled, if any.\<close>

definition on_draw_cursor :: "GridLock \<Rightarrow> error + (int \<times> int \<times> int \<times> int) option" where
  "on_draw_cursor self =
     bind (cell_size self) (\<lambda>(cell_width, cell_height).
       if Rect_bool (cursor_rect self)
       then bind (to_cairo (cursor_rect self) cell_width cell_height) (\<lambda>box. Inr (Some box))
       else Inr None)"

definition restore_target_geometry :: "args \<Rightarrow> GridLock \<Rightarrow> GridLock" where
  "restore_target_geometry a self0 =
     (let self = (case target_orig_geometry self0 of
                    (x, y, width, height) \<Rightarrow> set_raw_target_geometry a x y width height self0);
          self = (if target_orig_maximized_vert self
                  then self\<lparr>target := maximize_vertically (target self)\<rparr> else self);
          self = (if target_orig_maximized_horiz self
                  then self\<lparr>target := maximize_horizontally (target self)\<rparr> else self)
      in if target_orig_maximized self
         then self\<lparr>target := maximize (target self)\<rparr> else self)"

definition KEY_q :: nat where "KEY_q = 113"
definition KEY_Escape :: nat where "KEY_Escape = 65307"

definition on_key_press :: "args \<Rightarrow> nat \<Rightarrow> GridLock \<Rightarrow> error option \<times> GridLock" where
  "on_key_press a keyval self0 =
     (if keyval = KEY_q \<or> keyval = KEY_Escape then
        let self = (if live_preview a then restore_target_geometry a self0 else self0)
        in (None, self\<lparr>main_quit := True\<rparr>)
      else (None, self0))"

definition on_mouse_press :: "args \<Rightarrow> nat \<Rightarrow> GridLock \<Rightarrow> error option \<times> GridLock" where
  "on_mouse_press a button self0 =
     (if button = 1 then
        (None, self0\<lparr>drag := True, last_cursor_rect := Some (Rect_copy (cursor_rect self0))\<rparr>)
      else
        let self = (if live_preview a then restore_target_geometry a self0 else self0)
        in (None, self\<lparr>main_quit := True\<rparr>))"

definition on_mouse_release :: "args \<Rightarrow> nat \<Rightarrow> GridLock \<Rightarrow> error option \<times> GridLock" where
  "on_mouse_release a button self0 =
     (if button = 1 then
        (case set_target_geometry_from_cursor a (self0\<lparr>drag := False\<rparr>) of
           (Some e, self) \<Rightarrow> (Some e, self)
         | (None, self) \<Rightarrow> (None, self\<lparr>main_quit := True\<rparr>))
      else (None, self0))"

text \<open>
  \<^verbatim>\<open>on_mouse_move\<close>: \<open>ex\<close> and \<open>ey\<close> are \<^verbatim>\<open>event.x\<close> and \<^verbatim>\<open>event.y\<close>. Each
  attribute is assigned as soon as its right-hand side is evaluated, so a division
  that raises leaves the earlier assignments in place.
\<close>

definition on_mouse_move :: "args \<Rightarrow> rat \<Rightarrow> rat \<Rightarrow> GridLock \<Rightarrow> error option \<times> GridLock" where
  "on_mouse_move a ex ey self0 =
     (case cell_size self0 of
        Inl e \<Rightarrow> (Some e, self0)
      | Inr (cell_width, cell_height) \<Rightarrow>
         (if drag self0 then
            (case true_div ex cell_width of
               Inl e \<Rightarrow> (Some e, self0)
             | Inr qx \<Rightarrow>
                (let self = self0\<lparr>cursor_rect := (cursor_rect self0)\<lparr>x2 := Some (py_int qx)\<rparr>\<rparr>
                 in (case true_div ey cell_height of
                       Inl e \<Rightarrow> (Some e, self)
                     | Inr qy \<Rightarrow>
                        (let self = self\<lparr>cursor_rect :=
                                      (cursor_rect self)\<lparr>y2 := Some (py_int qy)\<rparr>\<rparr>
                         in if live_preview a then
                              (let self = (if hide_cursor a
                                           then self\<lparr>cursor_visible := False\<rparr> else self)
                               in (case last_cursor_rect self of
                                     None \<Rightarrow> (Some AttributeError, self)
                                   | Some l \<Rightarrow>
                                      (if \<not> Rect_eq l (cursor_rect self) then
                                         set_target_geometry_from_cursor a
                                           (self\<lparr>last_cursor_rect :=
                                              Some (Rect_copy (cursor_rect self))\<rparr>)
                                       else (None, self))))
                            else (None, self)))))
          else
            (case true_div ex cell_width of
               Inl e \<Rightarrow> (Some e, self0)
             | Inr qx \<Rightarrow>
                (let self = self0\<lparr>cursor_rect :=
                              (cursor_rect self0)\<lparr>x1 := Some (py_int qx),
                                                  x2 := Some (py_int qx)\<rparr>\<rparr>
                 in (case true_div ey cell_height of
                       Inl e \<Rightarrow> (Some e, self)
                     | Inr qy \<Rightarrow>
                        (None, self\<lparr>cursor_rect :=
                                 (cursor_rect self)\<lparr>y1 := Some (py_int qy),
                                                    y2 := Some (py_int qy)\<rparr>\<rparr>))))))"

subsection \<open>The event loop\<close>

datatype event = KeyPress nat | ButtonPress nat | ButtonRelease nat
  | MotionNotify rat rat | Draw bool

definition dispatch :: "args \<Rightarrow> event \<Rightarrow> GridLock \<Rightarrow> error option \<times> GridLock" where
  "dispatch a ev self =
     (case ev of
        KeyPress keyval \<Rightarrow> on_key_press a keyval self
      | ButtonPress button \<Rightarrow> on_mouse_press a button self
      | ButtonRelease button \<Rightarrow> on_mouse_release a button self
      | MotionNotify ex ey \<Rightarrow> on_mouse_move a ex ey self
      | Draw found \<Rightarrow> (None, on_draw_window found self))"

text \<open>
  \<^verbatim>\<open>Gtk.main()\<close>: events are handled one at a time until a handler has called
  \<^verbatim>\<open>Gtk.main_quit\<close>. An exception that leaves a handler is reported by the toolkit
  and the loop goes on with the object as the handler left it.
\<close>

fun run :: "args \<Rightarrow> GridLock \<Rightarrow> event list \<Rightarrow> GridLock" where
  "run a self [] = self"
| "run a self (ev # evs) =
     (if main_quit self then self else run a (snd (dispatch a ev self)) evs)"

subsection \<open>Notions of the specification\<close>

text \<open>
  The three states of the drag state machine, read off the object: the session is
  over once \<^verbatim>\<open>Gtk.main_quit\<close> has been called, and a drag is under way while
  \<open>drag\<close> is set.
\<close>

datatype phase = IDLE | DRAGGING | DONE

definition phase_of :: "GridLock \<Rightarrow> phase" where
  "phase_of self = (if main_quit self then DONE else if drag self then DRAGGING else IDLE)"

text \<open>The events that cancel the session: the keys q and Escape, and a press of a
  button other than the first.\<close>

definition is_cancel :: "event \<Rightarrow> bool" where
  "is_cancel ev =
     (case ev of
        KeyPress keyval \<Rightarrow> keyval = KEY_q \<or> keyval = KEY_Escape
      | ButtonPress button \<Rightarrow> button \<noteq> 1
      | _ \<Rightarrow> False)"

text \<open>
  The restoration the specification describes: the geometry of the snapshot, then the
  maximize flags that were set, vertical, horizontal, both.
\<close>

definition restore_calls ::
  "gravity \<Rightarrow> int \<times> int \<times> int \<times> int \<Rightarrow> bool \<Rightarrow> bool \<Rightarrow> bool \<Rightarrow> call list" where
  "restore_calls g geom vert horiz both =
     (case geom of (x, y, width, height) \<Rightarrow>
        [SetGeometry g x y width height]
        @ (if vert then [MaximizeVertically] else [])
        @ (if horiz then [MaximizeHorizontally] else [])
        @ (if both then [Maximize] else []))"



text \<open>
  The object after the first statement of \<^verbatim>\<open>set_target_geometry_from_cursor\<close>:
  \<^verbatim>\<open>if self.target.is_maximized(): self.target.unmaximize()\<close>.
\<close>

definition unmaximized :: "GridLock \<Rightarrow> GridLock" where
  "unmaximized self =
     (if is_maximized (target self) then self\<lparr>target := unmaximize (target self)\<rparr> else self)"

text \<open>The snapshot of the target window taken by \<^verbatim>\<open>__init__\<close>.\<close>

definition snapshot :: "GridLock \<Rightarrow> (int \<times> int \<times> int \<times> int) \<times> bool \<times> bool \<times> bool" where
  "snapshot self = (target_orig_geometry self, target_orig_maximized_vert self,
     target_orig_maximized_horiz self, target_orig_maximized self)"


text \<open>
  While a drag is under way, the rectangle recorded last has the anchor corner of the
  cursor rectangle.
\<close>

definition anchored :: "GridLock \<Rightarrow> bool" where
  "anchored self =
     (if drag self then
        (case last_cursor_rect self of
           None \<Rightarrow> False
         | Some l \<Rightarrow> x1 l = x1 (cursor_rect self) \<and> y1 l = y1 (cursor_rect self))
      else True)"

subsection \<open>The worked example of the specification\<close>

text \<open>
  A grid of 4 columns and 2 rows over a content area of 800 by 400 pixels, the grid
  window at the origin, no offset, no frame extents, a target window at
  (10, 20, 300, 200) that is not maximized.
\<close>

definition example_args :: args where
  "example_args = \<lparr>grid = (4, 2), offset = [0, 0, 0, 0], gravity = CURRENT,
     live_preview = False, hide_cursor = False\<rparr>"

definition example_target :: wnck_target where
  "example_target = \<lparr>maximized_vert = False, maximized_horiz = False, calls = []\<rparr>"

definition example_gridlock :: GridLock where
  "example_gridlock =
     \<lparr>target = example_target, cols = 4, rows = 2, drag = False,
      wnck_window = False, cursor_rect = Rect_init, last_cursor_rect = None,
      target_orig_geometry = (10, 20, 300, 200),
      target_orig_maximized_vert = False,
      target_orig_maximized_horiz = False,
      target_orig_maximized = False,
      allocation = (800, 400), grid_geometry = (0, 0, 800, 400), frame_extents = None,
      cursor_visible = True, main_quit = False\<rparr>"

section \<open>Properties\<close>

subsection \<open>Rect\<close>


lemma to_cairo_Some:
  "to_cairo \<lparr>x1 = Some xa, y1 = Some ya, x2 = Some xb, y2 = Some yb\<rparr> sx sy =
     Inr (py_int (of_int (min xa xb) * sx), py_int (of_int (min ya yb) * sy),
          py_int (of_int (1 + max xa xb - min xa xb) * sx),
          py_int (of_int (1 + max ya yb - min ya yb) * sy))"
  by (simp add: to_cairo_def bind_def py_min_def py_max_def)


text \<open>
  C8. Swapping the two corners of a fully set rectangle does not change the pixel
  box, and the box is computed without an exception.
\<close>

theorem to_cairo_swap_corners:
  "to_cairo \<lparr>x1 = Some xa, y1 = Some ya, x2 = Some xb, y2 = Some yb\<rparr> cell_width cell_height =
     to_cairo \<lparr>x1 = Some xb, y1 = Some yb, x2 = Some xa, y2 = Some ya\<rparr> cell_width cell_height
   \<and> (\<exists>box. to_cairo \<lparr>x1 = Some xa, y1 = Some ya, x2 = Some xb, y2 = Some yb\<rparr>
               cell_width cell_height = Inr box)"
  by (simp add: to_cairo_Some min.commute max.commute)

text \<open>
  C9, as stated, fails where the cell size is not a whole number: 1000 pixels over 16
  columns and 1075 pixels over 10 rows give cells of 62.5 by 107.5 pixels, and the box
  of the single cell (3, 2) is 62 by 107 pixels.
\<close>

theorem single_cell_box_counterexample:
  "to_cairo \<lparr>x1 = Some 3, y1 = Some 2, x2 = Some 3, y2 = Some 2\<rparr> (1000 / 16) (1075 / 10)
     = Inr (187, 215, 62, 107)
   \<and> of_int 62 \<noteq> (1000 / 16 :: rat) \<and> of_int 107 \<noteq> (1075 / 10 :: rat)"
  by code_simp

text \<open>
  C9, amended. The box of a single-cell selection has the width and the height of one
  cell truncated to integers; for a cell size that is a whole number these are the
  cell width and the cell height themselves.
\<close>

theorem single_cell_box_truncated:
  "to_cairo \<lparr>x1 = Some xa, y1 = Some ya, x2 = Some xa, y2 = Some ya\<rparr> cell_width cell_height =
     Inr (py_int (of_int xa * cell_width), py_int (of_int ya * cell_height),
          py_int cell_width, py_int cell_height)
   \<and> to_cairo \<lparr>x1 = Some xa, y1 = Some ya, x2 = Some xa, y2 = Some ya\<rparr> (of_int m) (of_int n) =
     Inr (xa * m, ya * n, m, n)"
  by (simp add: to_cairo_Some py_int_def flip: of_int_mult)

subsection \<open>Cancelling\<close>

lemma restore_target_geometry_calls:
  "calls (target (restore_target_geometry a self)) =
     calls (target self) @ restore_calls (gravity a) (target_orig_geometry self)
        (target_orig_maximized_vert self) (target_orig_maximized_horiz self)
        (target_orig_maximized self)"
  by (cases "target_orig_geometry self")
     (simp add: restore_target_geometry_def restore_calls_def set_raw_target_geometry_def
        set_geometry_def maximize_def maximize_vertically_def maximize_horizontally_def Let_def)

lemma restore_target_geometry_fields:
  "drag (restore_target_geometry a self) = drag self"
  "main_quit (restore_target_geometry a self) = main_quit self"
  "cursor_rect (restore_target_geometry a self) = cursor_rect self"
  "last_cursor_rect (restore_target_geometry a self) = last_cursor_rect self"
  "target_orig_geometry (restore_target_geometry a self) = target_orig_geometry self"
  "target_orig_maximized_vert (restore_target_geometry a self) = target_orig_maximized_vert self"
  "target_orig_maximized_horiz (restore_target_geometry a self) = target_orig_maximized_horiz self"
  "target_orig_maximized (restore_target_geometry a self) = target_orig_maximized self"
  by (cases "target_orig_geometry self";
      simp add: restore_target_geometry_def set_raw_target_geometry_def Let_def)+

lemma mapper_fields:
  "drag (snd (set_target_geometry_from_cursor a self)) = drag self"
  "main_quit (snd (set_target_geometry_from_cursor a self)) = main_quit self"
  "cursor_rect (snd (set_target_geometry_from_cursor a self)) = cursor_rect self"
  "last_cursor_rect (snd (set_target_geometry_from_cursor a self)) = last_cursor_rect self"
  "target_orig_geometry (snd (set_target_geometry_from_cursor a self)) = target_orig_geometry self"
  "target_orig_maximized_vert (snd (set_target_geometry_from_cursor a self)) = target_orig_maximized_vert self"
  "target_orig_maximized_horiz (snd (set_target_geometry_from_cursor a self)) = target_orig_maximized_horiz self"
  "target_orig_maximized (snd (set_target_geometry_from_cursor a self)) = target_orig_maximized self"
  by (simp_all add: set_target_geometry_from_cursor_def set_raw_target_geometry_star_def
      set_raw_target_geometry_def Let_def cell_size_def bind_def
      split: sum.splits prod.splits list.splits)

text \<open>
  C4, as stated, fails with live preview: a press of the third button in the idle
  state ends the session and calls the geometry setter with the geometry of the
  snapshot.
\<close>

theorem non_primary_press_counterexample:
  "phase_of example_gridlock = IDLE
   \<and> phase_of (snd (on_mouse_press (example_args\<lparr>live_preview := True\<rparr>) 3 example_gridlock))
       = DONE
   \<and> calls (target (snd (on_mouse_press (example_args\<lparr>live_preview := True\<rparr>) 3
        example_gridlock)))
       = [SetGeometry CURRENT 10 20 300 200]"
  by code_simp

text \<open>
  C4, amended. A press of a button other than the first in the idle state returns
  without an exception and ends the session. Without live preview the target window is
  left as it is: no call is made on it. With live preview the calls made on the target
  are exactly the restoring ones: the geometry setter once, with the geometry of the
  snapshot, then the maximize calls for the flags of the snapshot.
\<close>

theorem non_primary_press_cancels:
  assumes "button \<noteq> 1" "phase_of self = IDLE"
  shows "fst (on_mouse_press a button self) = None
    \<and> phase_of (snd (on_mouse_press a button self)) = DONE
    \<and> (if live_preview a
       then calls (target (snd (on_mouse_press a button self))) =
              calls (target self) @
                restore_calls (gravity a) (target_orig_geometry self)
                  (target_orig_maximized_vert self) (target_orig_maximized_horiz self)
                  (target_orig_maximized self)
       else target (snd (on_mouse_press a button self)) = target self)"
  using assms
  by (simp add: on_mouse_press_def phase_of_def Let_def restore_target_geometry_calls)

text \<open>The theorem at the worked example, without live preview, for the third button.\<close>

theorem non_primary_press_cancels_witness:
  "(3::nat) \<noteq> 1 \<and> phase_of example_gridlock = IDLE
   \<and> fst (on_mouse_press example_args 3 example_gridlock) = None
   \<and> phase_of (snd (on_mouse_press example_args 3 example_gridlock)) = DONE
   \<and> (if live_preview example_args
       then calls (target (snd (on_mouse_press example_args 3 example_gridlock))) =
              calls (target example_gridlock) @
                restore_calls (gravity example_args) (target_orig_geometry example_gridlock)
                  (target_orig_maximized_vert example_gridlock)
                  (target_orig_maximized_horiz example_gridlock)
                  (target_orig_maximized example_gridlock)
       else target (snd (on_mouse_press example_args 3 example_gridlock)) =
              target example_gridlock)"
proof -
  have h1: "(3::nat) \<noteq> 1" by simp
  have h2: "phase_of example_gridlock = IDLE" by code_simp
  show ?thesis
    by (intro conjI h1 h2 non_primary_press_cancels [OF h1 h2, of example_args])
qed

text \<open>The snapshot is never changed by a handler.\<close>

lemma snapshot_mapper: "snapshot (snd (set_target_geometry_from_cursor a self)) = snapshot self"
  by (simp add: snapshot_def mapper_fields)

lemma snapshot_upd [simp]:
  "snapshot (self\<lparr>drag := d\<rparr>) = snapshot self"
  "snapshot (self\<lparr>main_quit := q\<rparr>) = snapshot self"
  "snapshot (self\<lparr>cursor_rect := r\<rparr>) = snapshot self"
  "snapshot (self\<lparr>last_cursor_rect := l\<rparr>) = snapshot self"
  "snapshot (self\<lparr>cursor_visible := v\<rparr>) = snapshot self"
  "snapshot (self\<lparr>wnck_window := w\<rparr>) = snapshot self"
  "snapshot (self\<lparr>target := t\<rparr>) = snapshot self"
  by (simp_all add: snapshot_def)

lemma snapshot_restore: "snapshot (restore_target_geometry a self) = snapshot self"
  by (simp add: snapshot_def restore_target_geometry_fields)

lemma snapshot_on_mouse_move: "snapshot (snd (on_mouse_move a ex ey self)) = snapshot self"
  by (simp add: on_mouse_move_def snapshot_mapper Let_def
      split: sum.splits prod.splits option.splits)

lemma snapshot_on_mouse_release: "snapshot (snd (on_mouse_release a b self)) = snapshot self"
proof -
  have "snapshot (snd (set_target_geometry_from_cursor a (self\<lparr>drag := False\<rparr>))) = snapshot self"
    by (simp add: snapshot_mapper)
  then show ?thesis
    by (auto simp: on_mouse_release_def split: prod.splits option.splits)
qed

lemma snapshot_dispatch: "snapshot (snd (dispatch a ev self)) = snapshot self"
  by (cases ev)
     (simp_all add: dispatch_def on_key_press_def on_mouse_press_def on_draw_window_def
        snapshot_restore snapshot_on_mouse_move snapshot_on_mouse_release Let_def)

lemma snapshot_run: "snapshot (run a self evs) = snapshot self"
  by (induction evs arbitrary: self) (simp_all add: snapshot_dispatch)

lemma snapshot_init:
  "GridLock_init a tgt geom alloc ggeom fext composited = Inr self0 \<Longrightarrow>
   snapshot self0 = (geom, is_maximized_vertically tgt, is_maximized_horizontally tgt, is_maximized tgt)"
  by (auto simp: GridLock_init_def snapshot_def split: if_splits)

lemma cancel_calls:
  "is_cancel ev \<Longrightarrow>
   calls (target (snd (dispatch a ev self))) =
     calls (target self) @
       (if live_preview a
        then restore_calls (gravity a) (target_orig_geometry self)
          (target_orig_maximized_vert self) (target_orig_maximized_horiz self)
          (target_orig_maximized self)
        else [])"
  by (cases ev)
     (simp_all add: is_cancel_def dispatch_def on_key_press_def on_mouse_press_def Let_def
        restore_target_geometry_calls)

lemma cancel_quit:
  "is_cancel ev \<Longrightarrow> fst (dispatch a ev self) = None \<and> main_quit (snd (dispatch a ev self))"
  by (cases ev)
     (simp_all add: is_cancel_def dispatch_def on_key_press_def on_mouse_press_def Let_def)

text \<open>
  C5. In every state the session can reach from its start, a cancel event (the Escape
  key, the key q, or a press of a button other than the first) ends the session; with
  live preview it makes exactly the restoring calls on the target: \<open>set_geometry\<close>
  with the geometry of the snapshot taken at the start, then the maximize calls for the
  flags that were set then, vertical, horizontal, both; without live preview it makes
  no call on the target.
\<close>

theorem cancel_restores_snapshot:
  assumes init: "GridLock_init a tgt geom alloc ggeom fext composited = Inr self0"
    and cancel: "is_cancel ev"
  shows "calls (target (snd (dispatch a ev (run a self0 evs)))) =
           calls (target (run a self0 evs)) @
             (if live_preview a
              then restore_calls (gravity a) geom (is_maximized_vertically tgt)
                     (is_maximized_horizontally tgt) (is_maximized tgt)
              else [])
         \<and> fst (dispatch a ev (run a self0 evs)) = None
         \<and> phase_of (snd (dispatch a ev (run a self0 evs))) = DONE"
proof -
  have "snapshot (run a self0 evs) =
      (geom, is_maximized_vertically tgt, is_maximized_horizontally tgt, is_maximized tgt)"
    using snapshot_init [OF init] by (simp add: snapshot_run)
  then show ?thesis
    using cancel_calls [OF cancel, of a "run a self0 evs"] cancel_quit [OF cancel, of a "run a self0 evs"]
    by (simp add: snapshot_def phase_of_def)
qed

text \<open>
  The theorem at a session with live preview on a target that is maximized vertically
  only: after a drag over two cells the Escape key restores the geometry and the
  vertical maximization.
\<close>

theorem cancel_restores_snapshot_witness:
  "GridLock_init (example_args\<lparr>live_preview := True\<rparr>) (example_target\<lparr>maximized_vert := True\<rparr>)
      (10, 20, 300, 200) (800, 400) (0, 0, 800, 400) None True
     = Inr (example_gridlock\<lparr>target := example_target\<lparr>maximized_vert := True\<rparr>,
              target_orig_maximized_vert := True\<rparr>)
   \<and> is_cancel (KeyPress KEY_Escape)
   \<and> calls (target (snd (dispatch (example_args\<lparr>live_preview := True\<rparr>) (KeyPress KEY_Escape)
        (run (example_args\<lparr>live_preview := True\<rparr>)
           (example_gridlock\<lparr>target := example_target\<lparr>maximized_vert := True\<rparr>,
              target_orig_maximized_vert := True\<rparr>)
           [Draw True, MotionNotify 250 50, ButtonPress 1, MotionNotify 450 250]))))
      = [SetGeometry CURRENT 200 0 400 400, SetGeometry CURRENT 10 20 300 200,
         MaximizeVertically]"
proof -
  have h1: "GridLock_init (example_args\<lparr>live_preview := True\<rparr>) (example_target\<lparr>maximized_vert := True\<rparr>)
      (10, 20, 300, 200) (800, 400) (0, 0, 800, 400) None True
     = Inr (example_gridlock\<lparr>target := example_target\<lparr>maximized_vert := True\<rparr>,
              target_orig_maximized_vert := True\<rparr>)"
    by code_simp
  have h2: "is_cancel (KeyPress KEY_Escape)"
    by (simp add: is_cancel_def)
  have before: "calls (target (run (example_args\<lparr>live_preview := True\<rparr>)
           (example_gridlock\<lparr>target := example_target\<lparr>maximized_vert := True\<rparr>,
              target_orig_maximized_vert := True\<rparr>)
           [Draw True, MotionNotify 250 50, ButtonPress 1, MotionNotify 450 250]))
      = [SetGeometry CURRENT 200 0 400 400]"
    by code_simp
  have restore: "(if live_preview (example_args\<lparr>live_preview := True\<rparr>)
       then restore_calls (gravity (example_args\<lparr>live_preview := True\<rparr>)) (10, 20, 300, 200)
              (is_maximized_vertically (example_target\<lparr>maximized_vert := True\<rparr>))
              (is_maximized_horizontally (example_target\<lparr>maximized_vert := True\<rparr>))
              (is_maximized (example_target\<lparr>maximized_vert := True\<rparr>))
       else []) = [SetGeometry CURRENT 10 20 300 200, MaximizeVertically]"
    by code_simp
  have "calls (target (snd (dispatch (example_args\<lparr>live_preview := True\<rparr>) (KeyPress KEY_Escape)
        (run (example_args\<lparr>live_preview := True\<rparr>)
           (example_gridlock\<lparr>target := example_target\<lparr>maximized_vert := True\<rparr>,
              target_orig_maximized_vert := True\<rparr>)
           [Draw True, MotionNotify 250 50, ButtonPress 1, MotionNotify 450 250]))))
      = [SetGeometry CURRENT 200 0 400 400] @ [SetGeometry CURRENT 10 20 300 200, MaximizeVertically]"
    using cancel_restores_snapshot [OF h1 h2,
        of "[Draw True, MotionNotify 250 50, ButtonPress 1, MotionNotify 450 250]"]
    unfolding before restore by (rule conjunct1)
  then have c: "calls (target (snd (dispatch (example_args\<lparr>live_preview := True\<rparr>) (KeyPress KEY_Escape)
        (run (example_args\<lparr>live_preview := True\<rparr>)
           (example_gridlock\<lparr>target := example_target\<lparr>maximized_vert := True\<rparr>,
              target_orig_maximized_vert := True\<rparr>)
           [Draw True, MotionNotify 250 50, ButtonPress 1, MotionNotify 450 250]))))
      = [SetGeometry CURRENT 200 0 400 400, SetGeometry CURRENT 10 20 300 200,
         MaximizeVertically]"
    by (simp only: append.simps)
  show ?thesis
    by (intro conjI h1 h2 c)
qed

subsection \<open>The coordinate mapper\<close>

lemma unmaximized_fields [simp]:
  "cols (unmaximized self) = cols self"
  "rows (unmaximized self) = rows self"
  "allocation (unmaximized self) = allocation self"
  "cursor_rect (unmaximized self) = cursor_rect self"
  "wnck_window (unmaximized self) = wnck_window self"
  "grid_geometry (unmaximized self) = grid_geometry self"
  "frame_extents (unmaximized self) = frame_extents self"
  by (simp_all add: unmaximized_def)

lemma not_maximized_unmaximized: "\<not> is_maximized (target (unmaximized self))"
  by (simp add: unmaximized_def is_maximized_def unmaximize_def)

lemma calls_unmaximized:
  "calls (target (unmaximized self)) =
     calls (target self) @ (if is_maximized (target self) then [Unmaximize] else [])"
  by (simp add: unmaximized_def unmaximize_def)

lemma mapper_unmaximized:
  "set_target_geometry_from_cursor a self =
     (case cell_size (unmaximized self) of
           Inl e \<Rightarrow> (Some e, unmaximized self)
         | Inr (cell_width, cell_height) \<Rightarrow>
      (case to_cairo (cursor_rect (unmaximized self)) cell_width cell_height of
           Inl e \<Rightarrow> (Some e, unmaximized self)
         | Inr (x, y, width, height) \<Rightarrow>
       if \<not> wnck_window (unmaximized self) then (Some AttributeError, unmaximized self)
       else
         (case grid_geometry (unmaximized self) of (grid_x, grid_y, grid_width, grid_height) \<Rightarrow>
            set_raw_target_geometry_star a
              (zip_sum (zip_sum [x + grid_x, y + grid_y, width, height] (offset a))
                 (get_gtk_frame_offset (frame_extents (unmaximized self)))) (unmaximized self))))"
  unfolding set_target_geometry_from_cursor_def unmaximized_def Let_def ..

lemma length_pad_offset: "4 \<le> length (pad_offset xs)"
  by (simp add: pad_offset_def)

lemma get_gtk_frame_offset_4:
  "\<exists>fx fy fw fh. get_gtk_frame_offset fe = [fx, fy, fw, fh]"
  by (cases fe) (auto simp: get_gtk_frame_offset_def)

lemma zip_sum_4:
  "zip_sum [p, q, r, s] (ox # oy # ow # oh # rest) = [p + ox, q + oy, r + ow, s + oh]"
  by (simp add: zip_sum_def)


lemma to_cairo_ok:
  "Rect_bool r \<Longrightarrow> \<exists>box. to_cairo r sx sy = Inr box"
  by (auto simp: Rect_bool_def to_cairo_def bind_def py_min_def py_max_def)




text \<open>
  C10. The mapper first unmaximizes a maximized target: whatever it does afterwards
  (raise, or call the geometry setter), it does on the object after that step, whose
  target is not maximized and has received \<open>Unmaximize\<close> exactly when it was
  maximized before.
\<close>

theorem mapper_unmaximizes_first:
  "\<not> is_maximized (target (unmaximized self))
   \<and> calls (target (unmaximized self)) =
       calls (target self) @ (if is_maximized (target self) then [Unmaximize] else [])
   \<and> (case set_target_geometry_from_cursor a self of
        (Some e, self') \<Rightarrow> self' = unmaximized self
      | (None, self') \<Rightarrow>
          (\<exists>x y width height.
             self' = set_raw_target_geometry a x y width height (unmaximized self)))"
proof -
  have "case set_target_geometry_from_cursor a self of
        (Some e, self') \<Rightarrow> self' = unmaximized self
      | (None, self') \<Rightarrow>
          (\<exists>x y width height.
             self' = set_raw_target_geometry a x y width height (unmaximized self))"
    by (auto simp: mapper_unmaximized set_raw_target_geometry_star_def
        split: sum.splits prod.splits list.splits)
  then show ?thesis
    by (simp add: not_maximized_unmaximized calls_unmaximized)
qed

text \<open>The worked example on a maximized target: the target is unmaximized, then resized.\<close>

lemma mapper_on_maximized_target:
  "calls (target (snd (set_target_geometry_from_cursor example_args
     (example_gridlock\<lparr>wnck_window := True,
        target := example_target\<lparr>maximized_vert := True, maximized_horiz := True\<rparr>,
        cursor_rect := \<lparr>x1 = Some 1, y1 = Some 0, x2 = Some 2, y2 = Some 1\<rparr>\<rparr>))))
   = [Unmaximize, SetGeometry CURRENT 200 0 400 400]"
  by code_simp

subsection \<open>Dragging\<close>



lemma anchored_restore: "anchored (restore_target_geometry a self) = anchored self"
  by (simp add: anchored_def restore_target_geometry_fields split: option.splits)













subsection \<open>The worked example\<close>

lemma init_example:
  "GridLock_init example_args example_target (10, 20, 300, 200) (800, 400) (0, 0, 800, 400)
     None True = Inr example_gridlock"
  by code_simp

text \<open>
  C1, as stated, fails: 2 rows over a content area 400 pixels high are cells 200
  pixels high, not 100, and for the corners (1, 0) and (2, 1) the mapper requests
  (200, 0, 400, 400). The same request is made at the end of the session that presses
  in cell (1, 0), drags to cell (2, 1) and releases.
\<close>

theorem worked_example_counterexample:
  "cell_size example_gridlock = Inr (200, 200)
   \<and> set_target_geometry_from_cursor example_args
        (example_gridlock\<lparr>wnck_window := True,
           cursor_rect := \<lparr>x1 = Some 1, y1 = Some 0, x2 = Some 2, y2 = Some 1\<rparr>\<rparr>)
      = (None, set_raw_target_geometry example_args 200 0 400 400
           (example_gridlock\<lparr>wnck_window := True,
              cursor_rect := \<lparr>x1 = Some 1, y1 = Some 0, x2 = Some 2, y2 = Some 1\<rparr>\<rparr>))
   \<and> cursor_rect (run example_args example_gridlock
         [Draw True, MotionNotify 250 50, ButtonPress 1, MotionNotify 450 250])
       = \<lparr>x1 = Some 1, y1 = Some 0, x2 = Some 2, y2 = Some 1\<rparr>
   \<and> calls (target (run example_args example_gridlock
         [Draw True, MotionNotify 250 50, ButtonPress 1, MotionNotify 450 250, ButtonRelease 1]))
       = [SetGeometry CURRENT 200 0 400 400]"
  by code_simp

text \<open>
  C1, amended. For a grid of 4 columns and 2 rows, cells of 200 by 100 pixels are those
  of a content area of 800 by 200 pixels; there, for the corners (1, 0) and (2, 1), the
  grid window at the origin and no frame extents, the mapper requests (200, 0, 400, 200)
  with no user offset and (205, -3, 400, 210) with the user offset (5, -3, 0, 10), and
  so does the session that presses in cell (1, 0), drags to cell (2, 1) and releases.
  Over a content area of 800 by 400 pixels the cells are 200 by 200 pixels and the two
  requests are (200, 0, 400, 400) and (205, -3, 400, 410).
\<close>

theorem worked_example:
  "cell_size (example_gridlock\<lparr>allocation := (800, 200)\<rparr>) = Inr (200, 100)
   \<and> set_target_geometry_from_cursor example_args
        (example_gridlock\<lparr>allocation := (800, 200), wnck_window := True,
           cursor_rect := \<lparr>x1 = Some 1, y1 = Some 0, x2 = Some 2, y2 = Some 1\<rparr>\<rparr>)
      = (None, set_raw_target_geometry example_args 200 0 400 200
           (example_gridlock\<lparr>allocation := (800, 200), wnck_window := True,
              cursor_rect := \<lparr>x1 = Some 1, y1 = Some 0, x2 = Some 2, y2 = Some 1\<rparr>\<rparr>))
   \<and> set_target_geometry_from_cursor (example_args\<lparr>offset := [5, - 3, 0, 10]\<rparr>)
        (example_gridlock\<lparr>allocation := (800, 200), wnck_window := True,
           cursor_rect := \<lparr>x1 = Some 1, y1 = Some 0, x2 = Some 2, y2 = Some 1\<rparr>\<rparr>)
      = (None, set_raw_target_geometry example_args 205 (- 3) 400 210
           (example_gridlock\<lparr>allocation := (800, 200), wnck_window := True,
              cursor_rect := \<lparr>x1 = Some 1, y1 = Some 0, x2 = Some 2, y2 = Some 1\<rparr>\<rparr>))
   \<and> cursor_rect (run example_args (example_gridlock\<lparr>allocation := (800, 200)\<rparr>)
         [Draw True, MotionNotify 250 50, ButtonPress 1, MotionNotify 450 150])
       = \<lparr>x1 = Some 1, y1 = Some 0, x2 = Some 2, y2 = Some 1\<rparr>
   \<and> calls (target (run example_args (example_gridlock\<lparr>allocation := (800, 200)\<rparr>)
         [Draw True, MotionNotify 250 50, ButtonPress 1, MotionNotify 450 150, ButtonRelease 1]))
       = [SetGeometry CURRENT 200 0 400 200]
   \<and> calls (target (run (example_args\<lparr>offset := [5, - 3, 0, 10]\<rparr>)
         (example_gridlock\<lparr>allocation := (800, 200)\<rparr>)
         [Draw True, MotionNotify 250 50, ButtonPress 1, MotionNotify 450 150, ButtonRelease 1]))
       = [SetGeometry CURRENT 205 (- 3) 400 210]
   \<and> calls (target (run example_args example_gridlock
         [Draw True, MotionNotify 250 50, ButtonPress 1, MotionNotify 450 250, ButtonRelease 1]))
       = [SetGeometry CURRENT 200 0 400 400]
   \<and> calls (target (run (example_args\<lparr>offset := [5, - 3, 0, 10]\<rparr>) example_gridlock
         [Draw True, MotionNotify 250 50, ButtonPress 1, MotionNotify 450 250, ButtonRelease 1]))
       = [SetGeometry CURRENT 205 (- 3) 400 410]"
  by code_simp

subsection \<open>A release before any motion\<close>

text \<open>
  C3 does not hold of the code. In a fresh session, a press of the first button
  followed by its release, with no motion event before or between them, runs the
  mapper on the rectangle whose four fields are all unset: \<open>to_cairo\<close> raises
  \<open>TypeError\<close>, no geometry is requested and the session is not ended. The drawing
  handler of the cursor tests the rectangle first and draws nothing.
\<close>

theorem release_without_motion_raises:
  "\<not> Rect_bool (cursor_rect (run example_args example_gridlock [Draw True, ButtonPress 1]))
   \<and> phase_of (run example_args example_gridlock [Draw True, ButtonPress 1]) = DRAGGING
   \<and> dispatch example_args (ButtonRelease 1)
        (run example_args example_gridlock [Draw True, ButtonPress 1])
      = (Some TypeError,
         (run example_args example_gridlock [Draw True, ButtonPress 1])\<lparr>drag := False\<rparr>)
   \<and> calls (target (run example_args example_gridlock
         [Draw True, ButtonPress 1, ButtonRelease 1])) = []
   \<and> phase_of (run example_args example_gridlock
         [Draw True, ButtonPress 1, ButtonRelease 1]) = IDLE
   \<and> on_draw_cursor (run example_args example_gridlock [Draw True, ButtonPress 1]) = Inr None"
  by code_simp

text \<open>
  What does hold: a rectangle that is valid stays valid under every event, a motion
  event in the idle state that returns leaves it valid, and on a valid rectangle the
  mapper does not raise \<open>TypeError\<close> (given the four entries of a parsed offset).
\<close>

lemma Rect_bool_on_mouse_move:
  "Rect_bool (cursor_rect self) \<Longrightarrow> Rect_bool (cursor_rect (snd (on_mouse_move a ex ey self)))"
  by (auto simp: on_mouse_move_def mapper_fields Rect_bool_def Let_def
      split: sum.splits prod.splits option.splits)

lemma cursor_rect_on_mouse_release:
  "cursor_rect (snd (on_mouse_release a b self)) = cursor_rect self"
proof -
  have "cursor_rect (snd (set_target_geometry_from_cursor a (self\<lparr>drag := False\<rparr>))) =
      cursor_rect self"
    by (simp add: mapper_fields)
  then show ?thesis
    by (auto simp: on_mouse_release_def split: prod.splits option.splits)
qed

lemma Rect_bool_dispatch:
  assumes "Rect_bool (cursor_rect self)"
  shows "Rect_bool (cursor_rect (snd (dispatch a ev self)))"
proof (cases ev)
  case (MotionNotify ex ey)
  then show ?thesis
    using assms by (simp add: dispatch_def Rect_bool_on_mouse_move)
next
  case (ButtonRelease b)
  then show ?thesis
    using assms by (simp add: dispatch_def cursor_rect_on_mouse_release)
qed (use assms in \<open>simp_all add: dispatch_def on_key_press_def on_mouse_press_def
    on_draw_window_def Let_def restore_target_geometry_fields\<close>)

lemma Rect_bool_run:
  "Rect_bool (cursor_rect self) \<Longrightarrow> Rect_bool (cursor_rect (run a self evs))"
  by (induction evs arbitrary: self) (simp_all add: Rect_bool_dispatch)

text \<open>After a motion event in the idle state that does not raise, the rectangle is
  valid.\<close>

lemma Rect_bool_after_idle_motion:
  "\<not> drag self \<Longrightarrow> on_mouse_move a ex ey self = (None, self') \<Longrightarrow>
   Rect_bool (cursor_rect self')"
  by (auto simp: on_mouse_move_def Rect_bool_def Let_def
      split: sum.splits prod.splits option.splits)

lemma to_cairo_not_Inl: "Rect_bool r \<Longrightarrow> to_cairo r sx sy \<noteq> Inl e"
  using to_cairo_ok [of r sx sy] by auto

lemma mapper_no_TypeError:
  assumes "Rect_bool (cursor_rect self)" "4 \<le> length (offset a)"
  shows "fst (set_target_geometry_from_cursor a self) \<noteq> Some TypeError"
proof -
  obtain ox oy ow oh rest where off: "offset a = ox # oy # ow # oh # rest"
    using assms(2) by (cases "offset a" rule: list.exhaust) (auto simp: Suc_le_length_iff numeral_eq_Suc)
  obtain fx fy fw fh where fr: "get_gtk_frame_offset (frame_extents self) = [fx, fy, fw, fh]"
    using get_gtk_frame_offset_4 by blast
  show ?thesis
    using to_cairo_not_Inl [OF assms(1)]
    by (auto simp: mapper_unmaximized cell_size_def bind_def true_div_def off fr zip_sum_4
        set_raw_target_geometry_star_def zip_sum_def
        split: sum.splits prod.splits)
qed

end
